theory Spec2Isabelle
  imports Main "HOL-Library.Sublist" "HOL-Library.AList" "HOL-Library.Char_ord"
    "HOL-Library.List_Lexorder"
begin

section \<open>Syntax nodes and JavaScript values\<close>

text \<open>
  Both scripts work on the syntax tree that the Babel parser returns. A JSX tag or
  attribute name is a \<open>JSXIdentifier\<close>, a \<open>JSXMemberExpression\<close> (\<open><Stack.Screen/>\<close>) or a
  \<open>JSXNamespacedName\<close> (\<open><svg:rect/>\<close>).
\<close>

datatype jsx_name =
    JSXIdentifier string
  | JSXMemberExpression jsx_name string
  | JSXNamespacedName string string

text \<open>
  The scripts read \<open>openingElement.name.name\<close>. That is the string of a
  \<open>JSXIdentifier\<close>, \<open>undefined\<close> on a \<open>JSXMemberExpression\<close> (its fields are
  \<open>object\<close> and \<open>property\<close>) and the inner identifier node of a \<open>JSXNamespacedName\<close>.
\<close>

datatype js_value = JSUndefined | JSString string | JSNode jsx_name

fun name_field :: "jsx_name \<Rightarrow> js_value" where
  "name_field (JSXIdentifier s) = JSString s"
| "name_field (JSXMemberExpression obj prop) = JSUndefined"
| "name_field (JSXNamespacedName ns n) = JSNode (JSXIdentifier n)"

text \<open>\<open>Array.prototype.includes\<close> on an array of strings read from the JSON configuration
  or from import specifiers: only a string value can be a member.\<close>

definition array_includes :: "string list \<Rightarrow> js_value \<Rightarrow> bool" where
  "array_includes xs v = (v \<in> set (map JSString xs))"

text \<open>\<open>String.prototype.includes\<close>: the argument occurs somewhere in the string.\<close>

fun string_includes :: "string \<Rightarrow> string \<Rightarrow> bool" where
  "string_includes [] pkg = (pkg = [])"
| "string_includes (c # cs) pkg = (prefix pkg (c # cs) \<or> string_includes cs pkg)"

text \<open>\<open>String.prototype.toLowerCase\<close>, on the ASCII letters.\<close>

definition char_toLowerCase :: "char \<Rightarrow> char" where
  "char_toLowerCase c =
     (let n = (of_char c :: nat) in if 65 \<le> n \<and> n \<le> 90 then char_of (n + 32) else c)"

definition toLowerCase :: "string \<Rightarrow> string" where
  "toLowerCase s = map char_toLowerCase s"

text \<open>
  \<open>String.prototype.localeCompare\<close> is a host builtin; it is modelled by the
  lexicographic order of the character codes, the order that the specification names.
  It returns 0 on equal strings, as every collation does.
\<close>

fun localeCompare :: "string \<Rightarrow> string \<Rightarrow> int" where
  "localeCompare [] [] = 0"
| "localeCompare [] (b # bs) = - 1"
| "localeCompare (a # as) [] = 1"
| "localeCompare (a # as) (b # bs) =
     (if (of_char a :: nat) < of_char b then - 1
      else if (of_char b :: nat) < of_char a then 1
      else localeCompare as bs)"

text \<open>
  \<open>Array.prototype.sort\<close> with a comparator is stable: an element moves in front of
  another one only when the comparator puts it strictly first.
\<close>

fun insert_by :: "('a \<Rightarrow> 'a \<Rightarrow> int) \<Rightarrow> 'a \<Rightarrow> 'a list \<Rightarrow> 'a list" where
  "insert_by cmp x [] = [x]"
| "insert_by cmp x (y # ys) = (if cmp x y \<le> 0 then x # y # ys else y # insert_by cmp x ys)"

definition array_sort :: "('a \<Rightarrow> 'a \<Rightarrow> int) \<Rightarrow> 'a list \<Rightarrow> 'a list" where
  "array_sort cmp xs = foldr (insert_by cmp) xs []"

subsection \<open>Attributes\<close>

text \<open>
  The value of an attribute: a string literal (\<open>maxLength="10"\<close>), an expression
  container (\<open>maxLength={"20"}\<close>), or any other expression, kept as its source text.
\<close>

datatype jsx_value =
    StringLiteral string
  | JSXExpressionContainer jsx_value
  | Expression string

text \<open>
  The props adder reads \<open>prop.key?.name\<close> and \<open>prop.key?.value\<close> of the members of
  \<open>openingElement.attributes\<close>. \<open>object_key\<close> holds these two fields of a \<open>key\<close> object.
  The members are \<open>JSXAttribute\<close> nodes (fields \<open>name\<close> and \<open>value\<close>) and
  \<open>JSXSpreadAttribute\<close> nodes (field \<open>argument\<close>); neither the parser nor the builder
  \<open>t.jsxAttribute\<close> puts a \<open>key\<close> on them (\<open>key\<close> is a field of object properties), so
  on every node of a parsed file \<open>key\<close> is \<open>None\<close>.
\<close>

datatype object_key = ObjectKey (key_name: "string option") (key_value: "string option")

datatype attribute =
    JSXAttribute (key: "object_key option") (name: jsx_name) (attr_value: "jsx_value option")
  | JSXSpreadAttribute (key: "object_key option") (argument: string)

text \<open>The builders \<open>t.jsxAttribute\<close>, \<open>t.jsxIdentifier\<close>, \<open>t.jsxExpressionContainer\<close> and
  \<open>t.stringLiteral\<close>.\<close>

definition jsxAttribute :: "jsx_name \<Rightarrow> jsx_value \<Rightarrow> attribute" where
  "jsxAttribute n v = JSXAttribute None n (Some v)"

text \<open>\<open>prop.key?.name || prop.key?.value\<close>: \<open>None\<close> is \<open>undefined\<close>; an empty string is
  falsy, so \<open>||\<close> goes on to its right operand.\<close>

definition prop_key :: "attribute \<Rightarrow> string option" where
  "prop_key prop =
     (case key prop of
        None \<Rightarrow> None
      | Some k \<Rightarrow>
          (case key_name k of
             Some n \<Rightarrow> if n \<noteq> [] then Some n else key_value k
           | None \<Rightarrow> key_value k))"

text \<open>The assignment \<open>prop.value = v\<close>.\<close>

fun set_value :: "jsx_value \<Rightarrow> attribute \<Rightarrow> attribute" where
  "set_value v (JSXAttribute k n old) = JSXAttribute k n (Some v)"
| "set_value v (JSXSpreadAttribute k a) = JSXSpreadAttribute k a"

record jsx_element =
  tag :: jsx_name
  attributes :: "attribute list"

text \<open>The name an attribute has in the source text of the element, for stating
  properties of the attribute sequence.\<close>

fun attribute_name :: "attribute \<Rightarrow> string" where
  "attribute_name (JSXAttribute k (JSXIdentifier s) v) = s"
| "attribute_name (JSXAttribute k (JSXNamespacedName ns s) v) = ns @ '':'' @ s"
| "attribute_name (JSXAttribute k (JSXMemberExpression obj s) v) = s"
| "attribute_name (JSXSpreadAttribute k a) = []"

section \<open>The props adder\<close>

datatype prop_config = PropConfig (prop_name: string) (prop_value: string)

record config =
  components :: "string list"
  packages :: "string list"
  props :: "prop_config list"
  updateExisting :: bool

record stats =
  filesProcessed :: nat
  filesModified :: nat
  componentsFound :: nat
  propsAdded :: nat
  propsUpdated :: nat
  componentsSkipped :: nat
  errors :: "string list"

definition initial_stats :: stats where
  "initial_stats = \<lparr>filesProcessed = 0, filesModified = 0, componentsFound = 0,
     propsAdded = 0, propsUpdated = 0, componentsSkipped = 0, errors = []\<rparr>"

definition HTML_ELEMENTS :: "string list" where
  "HTML_ELEMENTS =
    [''div'', ''span'', ''p'', ''h1'', ''h2'', ''h3'', ''h4'', ''h5'', ''h6'',
     ''a'', ''img'', ''ul'', ''ol'', ''li'', ''table'', ''tr'', ''td'', ''th'',
     ''form'', ''input'', ''button'', ''label'', ''select'', ''option'',
     ''textarea'', ''section'', ''article'', ''header'', ''footer'', ''nav'',
     ''main'', ''aside'', ''figure'', ''figcaption'', ''blockquote'', ''code'',
     ''pre'', ''em'', ''strong'', ''small'', ''mark'', ''del'', ''ins'', ''sub'', ''sup'']"

text \<open>One entry of the \<open>imports\<close> array that \<open>processFile\<close> collects.\<close>

record import_info =
  source :: string
  imported_components :: "string list"

definition isComponentFromTargetPackages ::
  "config \<Rightarrow> import_info list \<Rightarrow> js_value \<Rightarrow> bool" where
  "isComponentFromTargetPackages cfg imports componentName =
     list_ex (\<lambda>importInfo.
        array_includes (imported_components importInfo) componentName \<and>
        list_ex (\<lambda>pkg. string_includes (source importInfo) pkg) (packages cfg)) imports"

fun shouldProcessComponent :: "config \<Rightarrow> js_value \<Rightarrow> import_info list \<Rightarrow> bool" where
  "shouldProcessComponent cfg (JSString componentName) imports =
     (if componentName = [] then False
      else if toLowerCase componentName \<in> set HTML_ELEMENTS then False
      else if array_includes (components cfg) (JSString componentName) then True
      else isComponentFromTargetPackages cfg imports (JSString componentName))"
| "shouldProcessComponent cfg componentName imports = False"

definition sort_name :: "attribute \<Rightarrow> string" where
  "sort_name a = (case prop_key a of Some s \<Rightarrow> s | None \<Rightarrow> [])"

definition sortPropsAlphabetically :: "attribute list \<Rightarrow> attribute list" where
  "sortPropsAlphabetically ps =
     array_sort (\<lambda>a b. localeCompare (sort_name a) (sort_name b)) ps"

definition hasProp :: "attribute list \<Rightarrow> string \<Rightarrow> bool" where
  "hasProp ps propName = list_ex (\<lambda>prop. prop_key prop = Some propName) ps"

text \<open>\<open>updatePropValue\<close> assigns to the first attribute that \<open>find\<close> returns and says
  whether there was one; the array with the assignment done is returned beside it.\<close>

fun updatePropValue :: "attribute list \<Rightarrow> string \<Rightarrow> string \<Rightarrow> attribute list \<times> bool" where
  "updatePropValue [] propName newValue = ([], False)"
| "updatePropValue (p # ps) propName newValue =
     (if prop_key p = Some propName then (set_value (StringLiteral newValue) p # ps, True)
      else (case updatePropValue ps propName newValue of (ps', found) \<Rightarrow> (p # ps', found)))"

text \<open>The loop over \<open>config.props\<close> in \<open>addPropsToComponent\<close>, on the triple of
  \<open>existingProps\<close>, \<open>stats\<close> and \<open>hasChanges\<close>.\<close>

fun process_props ::
  "bool \<Rightarrow> prop_config list \<Rightarrow> attribute list \<times> stats \<times> bool \<Rightarrow> attribute list \<times> stats \<times> bool" where
  "process_props upd [] acc = acc"
| "process_props upd (propConfig # rest) (existingProps, st, hasChanges) =
     (let propName = prop_name propConfig; propValue = prop_value propConfig in
      if hasProp existingProps propName then
        (if upd then
           (case updatePropValue existingProps propName propValue of
              (updated, True) \<Rightarrow>
                process_props upd rest (updated, st\<lparr>propsUpdated := propsUpdated st + 1\<rparr>, True)
            | (updated, False) \<Rightarrow> process_props upd rest (updated, st, hasChanges))
         else
           process_props upd rest
             (existingProps, st\<lparr>componentsSkipped := componentsSkipped st + 1\<rparr>, hasChanges))
      else
        process_props upd rest
          (existingProps @
             [jsxAttribute (JSXIdentifier propName)
                (JSXExpressionContainer (StringLiteral propValue))],
           st\<lparr>propsAdded := propsAdded st + 1\<rparr>, True))"

text \<open>\<open>addPropsToComponent\<close> returns the element and the statistics as it leaves them,
  and its own result \<open>hasChanges\<close>.\<close>

definition addPropsToComponent ::
  "config \<Rightarrow> stats \<Rightarrow> jsx_element \<Rightarrow> import_info list \<Rightarrow> jsx_element \<times> stats \<times> bool" where
  "addPropsToComponent cfg st jsxElement imports =
     (let componentName = name_field (tag jsxElement) in
      if \<not> shouldProcessComponent cfg componentName imports then (jsxElement, st, False)
      else
        (case process_props (updateExisting cfg) (props cfg)
                (attributes jsxElement, st\<lparr>componentsFound := componentsFound st + 1\<rparr>, False) of
           (existingProps, st', hasChanges) \<Rightarrow>
             (if hasChanges
              then (jsxElement\<lparr>attributes := sortPropsAlphabetically existingProps\<rparr>, st', True)
              else (jsxElement\<lparr>attributes := existingProps\<rparr>, st', False))))"

subsection \<open>Files\<close>

text \<open>
  An import declaration binds local names through its specifiers; the scripts keep the
  local names of the named specifiers (\<open>spec.type === 'ImportSpecifier'\<close>) only.
\<close>

datatype import_specifier =
    ImportSpecifier (imported: string) (local_name: string)
  | ImportDefaultSpecifier (local_name: string)
  | ImportNamespaceSpecifier (local_name: string)

record import_declaration =
  source_value :: string
  specifiers :: "import_specifier list"

fun is_ImportSpecifier :: "import_specifier \<Rightarrow> bool" where
  "is_ImportSpecifier (ImportSpecifier i l) = True"
| "is_ImportSpecifier (ImportDefaultSpecifier l) = False"
| "is_ImportSpecifier (ImportNamespaceSpecifier l) = False"

definition specifier_names :: "import_specifier list \<Rightarrow> string list" where
  "specifier_names specs = map local_name (filter is_ImportSpecifier specs)"

text \<open>
  Of a parsed file the scripts visit the import declarations and the JSX elements; a
  tree is the two sequences of nodes, each in the order in which \<open>traverse\<close> visits it.
  Reading or parsing a file may throw: \<open>parsed\<close> is then \<open>Inl\<close> of the error's message.
  \<open>write_error\<close> is the message of the error that writing the file back throws, if it
  throws; only the props adder writes.
\<close>

record ast =
  import_declarations :: "import_declaration list"
  jsx_elements :: "jsx_element list"

record source_file =
  filePath :: string
  parsed :: "string + ast"
  write_error :: "string option"

text \<open>The first traversal of \<open>processFile\<close>: one entry for each import declaration that
  has a named specifier.\<close>

fun collect_imports :: "import_declaration list \<Rightarrow> import_info list" where
  "collect_imports [] = []"
| "collect_imports (d # ds) =
     (let cs = specifier_names (specifiers d) in
      if cs \<noteq> [] then \<lparr>source = source_value d, imported_components = cs\<rparr> # collect_imports ds
      else collect_imports ds)"

text \<open>The second traversal: \<open>addPropsToComponent\<close> on every element, with \<open>stats\<close> and
  \<open>fileModified\<close> threaded through.\<close>

fun process_elements ::
  "config \<Rightarrow> import_info list \<Rightarrow> jsx_element list \<Rightarrow> stats \<times> bool \<Rightarrow>
     jsx_element list \<times> stats \<times> bool" where
  "process_elements cfg imports [] (st, fileModified) = ([], st, fileModified)"
| "process_elements cfg imports (e # es) (st, fileModified) =
     (case addPropsToComponent cfg st e imports of
        (e', st', changed) \<Rightarrow>
          (case process_elements cfg imports es (st', fileModified \<or> changed) of
             (es', st'', m) \<Rightarrow> (e' # es', st'', m)))"

definition error_processing :: "string \<Rightarrow> string \<Rightarrow> string" where
  "error_processing path message = ''Error processing '' @ path @ '': '' @ message"

text \<open>\<open>processFile\<close> returns the statistics, and the tree it has written to the file
  when it has written one.\<close>

definition processFile :: "config \<Rightarrow> stats \<Rightarrow> source_file \<Rightarrow> stats \<times> ast option" where
  "processFile cfg st file =
     (case parsed file of
        Inl message \<Rightarrow>
          (st\<lparr>errors := errors st @ [error_processing (filePath file) message]\<rparr>, None)
      | Inr tree \<Rightarrow>
          (case process_elements cfg (collect_imports (import_declarations tree))
                  (jsx_elements tree) (st, False) of
             (es, st', fileModified) \<Rightarrow>
               (if fileModified then
                  (case write_error file of
                     Some message \<Rightarrow>
                       (st'\<lparr>errors := errors st' @ [error_processing (filePath file) message]\<rparr>,
                        None)
                   | None \<Rightarrow>
                       (st'\<lparr>filesModified := filesModified st' + 1,
                            filesProcessed := filesProcessed st' + 1\<rparr>,
                        Some (tree\<lparr>jsx_elements := es\<rparr>)))
                else (st'\<lparr>filesProcessed := filesProcessed st' + 1\<rparr>, None))))"

text \<open>The loop of \<open>main\<close> over the discovered files, and \<open>main\<close> itself, which returns
  before the loop when no file was found.\<close>

fun process_files :: "config \<Rightarrow> source_file list \<Rightarrow> stats \<Rightarrow> stats" where
  "process_files cfg [] st = st"
| "process_files cfg (f # fs) st = process_files cfg fs (fst (processFile cfg st f))"

definition main :: "config \<Rightarrow> source_file list \<Rightarrow> stats" where
  "main cfg files = (if files = [] then initial_stats else process_files cfg files initial_stats)"

section \<open>The component analyzer\<close>

datatype priority = Low | Medium | High

fun priority_rank :: "priority \<Rightarrow> nat" where
  "priority_rank Low = 0"
| "priority_rank Medium = 1"
| "priority_rank High = 2"

record priority_thresholds =
  high :: int
  medium :: int

record component_filters =
  filter_include :: "string list"
  filter_exclude :: "string list"

record analyzer_config =
  packagesToTrack :: "string list"
  priorityThresholds :: priority_thresholds
  componentFilters :: component_filters

text \<open>A JavaScript \<open>Map\<close> is an association list in insertion order (\<open>AList.update\<close>
  keeps the place of a key that is there and appends a new one), a \<open>Set\<close> a list without
  repetition in insertion order.\<close>

definition set_add :: "'a \<Rightarrow> 'a list \<Rightarrow> 'a list" where
  "set_add x xs = (if x \<in> set xs then xs else xs @ [x])"

text \<open>\<open>if (!m.has(k)) m.set(k, 0); m.set(k, m.get(k) + 1)\<close>\<close>

definition increment :: "'k \<Rightarrow> ('k \<times> nat) list \<Rightarrow> ('k \<times> nat) list" where
  "increment k m =
     (case map_of m k of
        None \<Rightarrow> AList.update k 1 m
      | Some n \<Rightarrow> AList.update k (n + 1) m)"

record summary =
  totalFiles :: nat
  totalComponents :: nat
  totalUsages :: nat
  summary_packages :: "string list"

record component_data =
  component_name :: js_value
  component_totalUsages :: nat
  component_files :: "(string \<times> nat) list"
  component_packages :: "string list"
  migrationPriority :: priority

record file_data =
  file_path :: string
  file_imports :: "import_info list"
  componentUsage :: "(js_value \<times> nat) list"
  file_totalUsages :: nat

record analysis =
  analysis_summary :: summary
  analysis_components :: "(js_value \<times> component_data) list"
  analysis_files :: "(string \<times> file_data) list"
  analysis_imports :: "(string \<times> string list) list"

definition initial_analysis :: analysis where
  "initial_analysis =
     \<lparr>analysis_summary =
        \<lparr>totalFiles = 0, totalComponents = 0, totalUsages = 0, summary_packages = []\<rparr>,
      analysis_components = [], analysis_files = [], analysis_imports = []\<rparr>"

definition getMigrationPriority :: "analyzer_config \<Rightarrow> nat \<Rightarrow> priority" where
  "getMigrationPriority cfg usageCount =
     (if high (priorityThresholds cfg) \<le> int usageCount then High
      else if medium (priorityThresholds cfg) \<le> int usageCount then Medium
      else Low)"

text \<open>\<open>analyzeImports\<close>: the visitor on one import declaration, then the traversal. The
  result is \<open>fileImports\<close> and the analysis with the package bookkeeping done.\<close>

definition track_components :: "string \<Rightarrow> string list \<Rightarrow> analysis \<Rightarrow> analysis" where
  "track_components src cs an =
     (let imps = (if map_of (analysis_imports an) src = None
                  then AList.update src [] (analysis_imports an)
                  else analysis_imports an);
          known = (case map_of imps src of Some l \<Rightarrow> l | None \<Rightarrow> [])
      in an\<lparr>analysis_summary :=
               (analysis_summary an)
                 \<lparr>summary_packages := set_add src (summary_packages (analysis_summary an))\<rparr>,
             analysis_imports := AList.update src (fold set_add cs known) imps\<rparr>)"

fun analyzeImports ::
  "analyzer_config \<Rightarrow> import_declaration list \<Rightarrow> analysis \<Rightarrow> import_info list \<times> analysis" where
  "analyzeImports cfg [] an = ([], an)"
| "analyzeImports cfg (d # ds) an =
     (if source_value d \<in> set (packagesToTrack cfg) then
        (let cs = specifier_names (specifiers d) in
         if cs \<noteq> [] then
           (case analyzeImports cfg ds (track_components (source_value d) cs an) of
              (fileImports, an') \<Rightarrow>
                (\<lparr>source = source_value d, imported_components = cs\<rparr> # fileImports, an'))
         else analyzeImports cfg ds an)
      else analyzeImports cfg ds an)"

definition isTrackedComponent :: "import_info list \<Rightarrow> js_value \<Rightarrow> bool" where
  "isTrackedComponent fileImports componentName =
     list_ex (\<lambda>imp. array_includes (imported_components imp) componentName) fileImports"

definition new_component :: "js_value \<Rightarrow> component_data" where
  "new_component componentName =
     \<lparr>component_name = componentName, component_totalUsages = 0, component_files = [],
      component_packages = [], migrationPriority = Low\<rparr>"

text \<open>The part of the visitor under \<open>if (isTrackedComponent)\<close> that updates the global
  analysis: look the record up or create it, count the usage, count it for the file, add
  the package of the first import entry that binds the name.\<close>

definition record_usage ::
  "string \<Rightarrow> import_info list \<Rightarrow> js_value \<Rightarrow> (js_value \<times> component_data) list \<Rightarrow>
     (js_value \<times> component_data) list" where
  "record_usage path fileImports componentName comps =
     (let componentData =
            (case map_of comps componentName of
               None \<Rightarrow> new_component componentName
             | Some c \<Rightarrow> c);
          counted = componentData
            \<lparr>component_totalUsages := component_totalUsages componentData + 1,
             component_files := increment path (component_files componentData)\<rparr>
      in AList.update componentName
           (case find (\<lambda>imp. array_includes (imported_components imp) componentName) fileImports of
              Some importInfo \<Rightarrow>
                counted\<lparr>component_packages := set_add (source importInfo) (component_packages counted)\<rparr>
            | None \<Rightarrow> counted)
           comps)"

text \<open>The \<open>JSXElement\<close> visitor of \<open>analyzeJSXUsage\<close>, on the pair of the file's
  \<open>componentUsage\<close> map and the analysis.\<close>

definition analyze_element ::
  "analyzer_config \<Rightarrow> string \<Rightarrow> import_info list \<Rightarrow> jsx_element \<Rightarrow>
     (js_value \<times> nat) list \<times> analysis \<Rightarrow> (js_value \<times> nat) list \<times> analysis" where
  "analyze_element cfg path fileImports el acc =
     (let componentName = name_field (tag el) in
      if filter_include (componentFilters cfg) \<noteq> [] \<and>
         \<not> array_includes (filter_include (componentFilters cfg)) componentName
      then acc
      else if array_includes (filter_exclude (componentFilters cfg)) componentName then acc
      else if isTrackedComponent fileImports componentName then
        (increment componentName (fst acc),
         (snd acc)\<lparr>analysis_components :=
            record_usage path fileImports componentName (analysis_components (snd acc))\<rparr>)
      else acc)"

definition analyzeJSXUsage ::
  "analyzer_config \<Rightarrow> string \<Rightarrow> import_info list \<Rightarrow> jsx_element list \<Rightarrow> analysis \<Rightarrow>
     (js_value \<times> nat) list \<times> analysis" where
  "analyzeJSXUsage cfg path fileImports els an =
     fold (analyze_element cfg path fileImports) els ([], an)"

text \<open>The analyzer's \<open>processFile\<close>: an error is printed and nothing else is done with
  it.\<close>

definition analyzer_processFile :: "analyzer_config \<Rightarrow> analysis \<Rightarrow> source_file \<Rightarrow> analysis" where
  "analyzer_processFile cfg an file =
     (case parsed file of
        Inl message \<Rightarrow> an
      | Inr tree \<Rightarrow>
          (case analyzeImports cfg (import_declarations tree) an of
             (fileImports, an1) \<Rightarrow>
               (case analyzeJSXUsage cfg (filePath file) fileImports (jsx_elements tree) an1 of
                  (usage, an2) \<Rightarrow>
                    an2\<lparr>analysis_files :=
                          AList.update (filePath file)
                            \<lparr>file_path = filePath file, file_imports = fileImports,
                             componentUsage = usage, file_totalUsages = sum_list (map snd usage)\<rparr>
                            (analysis_files an2),
                        analysis_summary :=
                          (analysis_summary an2)
                            \<lparr>totalFiles := totalFiles (analysis_summary an2) + 1\<rparr>\<rparr>)))"

fun analyze_files :: "analyzer_config \<Rightarrow> source_file list \<Rightarrow> analysis \<Rightarrow> analysis" where
  "analyze_files cfg [] an = an"
| "analyze_files cfg (f # fs) an = analyze_files cfg fs (analyzer_processFile cfg an f)"

text \<open>The summary that \<open>main\<close> computes after the loop, and the priorities that
  \<open>generateHTMLReport\<close> then stores in the records.\<close>

definition calculate_summary :: "analysis \<Rightarrow> analysis" where
  "calculate_summary an =
     an\<lparr>analysis_summary :=
          (analysis_summary an)
            \<lparr>totalComponents := length (analysis_components an),
             totalUsages := sum_list (map (\<lambda>kc. component_totalUsages (snd kc)) (analysis_components an))\<rparr>\<rparr>"

definition calculate_priorities :: "analyzer_config \<Rightarrow> analysis \<Rightarrow> analysis" where
  "calculate_priorities cfg an =
     an\<lparr>analysis_components :=
          map (\<lambda>kc. (fst kc, (snd kc)\<lparr>migrationPriority :=
                 getMigrationPriority cfg (component_totalUsages (snd kc))\<rparr>))
            (analysis_components an)\<rparr>"

definition analyzer_main :: "analyzer_config \<Rightarrow> source_file list \<Rightarrow> analysis" where
  "analyzer_main cfg files =
     (if files = [] then initial_analysis
      else calculate_priorities cfg (calculate_summary (analyze_files cfg files initial_analysis)))"

section \<open>Notions used to state the properties\<close>

text \<open>Two runs of the merge on one element, the second on the result of the first.\<close>

definition apply_twice ::
  "config \<Rightarrow> jsx_element \<Rightarrow> import_info list \<Rightarrow> jsx_element \<times> stats \<times> bool" where
  "apply_twice cfg el imports =
     (case addPropsToComponent cfg initial_stats el imports of
        (el1, st1, changed1) \<Rightarrow> addPropsToComponent cfg st1 el1 imports)"

text \<open>What the component records say about a name: its total, and its count in a file;
  both are 0 where there is no record or no entry.\<close>

definition usages_of :: "(js_value \<times> component_data) list \<Rightarrow> js_value \<Rightarrow> nat" where
  "usages_of comps c =
     (case map_of comps c of None \<Rightarrow> 0 | Some d \<Rightarrow> component_totalUsages d)"

definition file_count :: "(js_value \<times> component_data) list \<Rightarrow> js_value \<Rightarrow> string \<Rightarrow> nat" where
  "file_count comps c path =
     (case map_of comps c of
        None \<Rightarrow> 0
      | Some d \<Rightarrow> (case map_of (component_files d) path of None \<Rightarrow> 0 | Some n \<Rightarrow> n))"

text \<open>A name is in scope for the analyzer when the filters let it through and an import
  entry of the file binds it. The sightings of a name in a file are the elements of the
  file that carry the name while it is in scope; a file that does not parse has none.\<close>

definition in_scope :: "analyzer_config \<Rightarrow> import_info list \<Rightarrow> js_value \<Rightarrow> bool" where
  "in_scope cfg fileImports c =
     ((filter_include (componentFilters cfg) = [] \<or>
         array_includes (filter_include (componentFilters cfg)) c) \<and>
      \<not> array_includes (filter_exclude (componentFilters cfg)) c \<and>
      isTrackedComponent fileImports c)"

definition tracked_imports :: "analyzer_config \<Rightarrow> import_declaration list \<Rightarrow> import_info list" where
  "tracked_imports cfg ds =
     collect_imports (filter (\<lambda>d. source_value d \<in> set (packagesToTrack cfg)) ds)"

definition sightings :: "analyzer_config \<Rightarrow> source_file \<Rightarrow> js_value \<Rightarrow> nat" where
  "sightings cfg f c =
     (case parsed f of
        Inl message \<Rightarrow> 0
      | Inr tree \<Rightarrow>
          length (filter (\<lambda>el. name_field (tag el) = c \<and>
                     in_scope cfg (tracked_imports cfg (import_declarations tree)) c)
                   (jsx_elements tree)))"

text \<open>
  What happens to a file in a run of the props adder. Whether the elements of a file are
  changed depends on the configuration and the tree only; \<open>merge_changes\<close>,
  \<open>element_changes\<close> and \<open>elements_modified\<close> are the results \<open>hasChanges\<close> and
  \<open>fileModified\<close> of the loops when they start from fresh statistics. A file is errored
  with the message of the error thrown for it (by reading or parsing, or by writing a
  modified tree back), modified and written, or left unmodified.
\<close>

definition merge_changes :: "bool \<Rightarrow> prop_config list \<Rightarrow> attribute list \<Rightarrow> bool" where
  "merge_changes upd ps a = snd (snd (process_props upd ps (a, initial_stats, False)))"

definition element_changes :: "config \<Rightarrow> jsx_element \<Rightarrow> import_info list \<Rightarrow> bool" where
  "element_changes cfg e imps = snd (snd (addPropsToComponent cfg initial_stats e imps))"

definition elements_modified :: "config \<Rightarrow> import_info list \<Rightarrow> jsx_element list \<Rightarrow> bool" where
  "elements_modified cfg imps es =
     snd (snd (process_elements cfg imps es (initial_stats, False)))"

definition file_modified :: "config \<Rightarrow> ast \<Rightarrow> bool" where
  "file_modified cfg tree =
     elements_modified cfg (collect_imports (import_declarations tree)) (jsx_elements tree)"

datatype outcome = Errored string | Modified | Unmodified

definition file_outcome :: "config \<Rightarrow> source_file \<Rightarrow> outcome" where
  "file_outcome cfg f =
     (case parsed f of
        Inl message \<Rightarrow> Errored message
      | Inr tree \<Rightarrow>
          (if file_modified cfg tree
           then (case write_error f of Some message \<Rightarrow> Errored message | None \<Rightarrow> Modified)
           else Unmodified))"

text \<open>The error strings that a file contributes to \<open>stats.errors\<close>.\<close>

fun recorded_errors :: "string \<Rightarrow> outcome \<Rightarrow> string list" where
  "recorded_errors path (Errored message) = [''Error processing '' @ path @ '': '' @ message]"
| "recorded_errors path Modified = []"
| "recorded_errors path Unmodified = []"


subsection \<open>Example inputs\<close>

text \<open>The configuration and the element of the README of the props adder:
  \<open><TextInput placeholder="Enter text" style={styles.input}/>\<close> in a file that imports
  \<open>TextInput\<close> from \<open>react-native\<close>.\<close>

definition readme_config :: config where
  "readme_config =
     \<lparr>components = [''TextInput'', ''CustomInput'', ''Input'', ''TextField'', ''SearchInput''],
      packages = [''react-native'', ''@react-navigation'', ''custom-package'', ''ui-components''],
      props = [PropConfig ''maxLength'' ''1.5'', PropConfig ''autoComplete'' ''off''],
      updateExisting = True\<rparr>"

definition readme_element :: jsx_element where
  "readme_element =
     \<lparr>tag = JSXIdentifier ''TextInput'',
      attributes =
        [JSXAttribute None (JSXIdentifier ''placeholder'') (Some (StringLiteral ''Enter text'')),
         JSXAttribute None (JSXIdentifier ''style'')
           (Some (JSXExpressionContainer (Expression ''styles.input'')))]\<rparr>"

definition readme_imports :: "import_info list" where
  "readme_imports = [\<lparr>source = ''react-native'', imported_components = [''TextInput'']\<rparr>]"

definition maxLength_added :: attribute where
  "maxLength_added =
     JSXAttribute None (JSXIdentifier ''maxLength'')
       (Some (JSXExpressionContainer (StringLiteral ''1.5'')))"

definition autoComplete_added :: attribute where
  "autoComplete_added =
     JSXAttribute None (JSXIdentifier ''autoComplete'')
       (Some (JSXExpressionContainer (StringLiteral ''off'')))"

text \<open>\<open><Field maxLength="10"/>\<close> with the directive \<open>maxLength = "20"\<close> and
  \<open>updateExisting = false\<close>.\<close>

definition field_config :: config where
  "field_config =
     \<lparr>components = [''Field''], packages = [],
      props = [PropConfig ''maxLength'' ''20''], updateExisting = False\<rparr>"

definition field_element :: jsx_element where
  "field_element =
     \<lparr>tag = JSXIdentifier ''Field'',
      attributes =
        [JSXAttribute None (JSXIdentifier ''maxLength'') (Some (StringLiteral ''10''))]\<rparr>"

text \<open>A configuration that names packages only, and
  \<open>import { NavigationContainer } from '@react-navigation/native'\<close>.\<close>

definition navigation_config :: config where
  "navigation_config =
     \<lparr>components = [], packages = [''@react-navigation'', ''custom-ui-lib''],
      props = [PropConfig ''testID'' ''component-test''], updateExisting = False\<rparr>"

definition navigation_declaration :: import_declaration where
  "navigation_declaration =
     \<lparr>source_value = ''@react-navigation/native'',
      specifiers = [ImportDefaultSpecifier ''React'',
                    ImportSpecifier ''NavigationContainer'' ''NavigationContainer'']\<rparr>"

text \<open>An analyzer configuration that tracks the module \<open>kit\<close>, and files that import
  from it: \<open>A.tsx\<close> uses \<open><Field/>\<close> twice, \<open>B.tsx\<close> once (with a member-expression tag
  beside it), \<open>broken.tsx\<close> does not parse, and \<open>label.tsx\<close> imports a component named
  \<open>label\<close> and uses it.\<close>

definition kit_config :: analyzer_config where
  "kit_config =
     \<lparr>packagesToTrack = [''kit''],
      priorityThresholds = \<lparr>high = 10, medium = 5\<rparr>,
      componentFilters = \<lparr>filter_include = [], filter_exclude = []\<rparr>\<rparr>"

definition kit_declaration :: "string \<Rightarrow> import_declaration" where
  "kit_declaration n = \<lparr>source_value = ''kit'', specifiers = [ImportSpecifier n n]\<rparr>"

definition plain_element :: "jsx_name \<Rightarrow> jsx_element" where
  "plain_element t = \<lparr>tag = t, attributes = []\<rparr>"

definition file_A :: source_file where
  "file_A =
     \<lparr>filePath = ''A.tsx'',
      parsed = Inr \<lparr>import_declarations = [kit_declaration ''Field''],
                   jsx_elements = [plain_element (JSXIdentifier ''Field''),
                                   plain_element (JSXIdentifier ''Field'')]\<rparr>,
      write_error = None\<rparr>"

definition file_B :: source_file where
  "file_B =
     \<lparr>filePath = ''B.tsx'',
      parsed = Inr \<lparr>import_declarations = [kit_declaration ''Field''],
                   jsx_elements =
                     [plain_element (JSXMemberExpression (JSXIdentifier ''Stack'') ''Screen''),
                      plain_element (JSXIdentifier ''Field'')]\<rparr>,
      write_error = None\<rparr>"

definition broken_file :: source_file where
  "broken_file =
     \<lparr>filePath = ''broken.tsx'', parsed = Inl ''Unexpected token (3:7)'', write_error = None\<rparr>"

definition label_file :: source_file where
  "label_file =
     \<lparr>filePath = ''label.tsx'',
      parsed = Inr \<lparr>import_declarations = [kit_declaration ''label''],
                   jsx_elements = [plain_element (JSXIdentifier ''label'')]\<rparr>,
      write_error = None\<rparr>"

text \<open>\<open>B.tsx\<close> again, but the file cannot be written back.\<close>

definition unwritable_file :: source_file where
  "unwritable_file = file_B\<lparr>write_error := Some ''EACCES: permission denied''\<rparr>"


section \<open>The merge of the props adder\<close>

text \<open>
  C1. The README promises that existing props are updated and that a run leaves the
  props in alphabetical order, so a second run over the result of a first one should
  change nothing. \<open>hasProp\<close> looks for the name of an attribute in a field \<open>key\<close> that no
  attribute node has, so it never finds one: on the README's own element and
  configuration (\<open>updateExisting = true\<close>) the first run appends the two props behind the
  existing ones, and the second run appends them once more and reports a change again.
\<close>

theorem second_run_appends_again:
  "addPropsToComponent readme_config initial_stats readme_element readme_imports =
     (readme_element\<lparr>attributes :=
        attributes readme_element @ [maxLength_added, autoComplete_added]\<rparr>,
      initial_stats\<lparr>componentsFound := 1, propsAdded := 2\<rparr>, True) \<and>
   apply_twice readme_config readme_element readme_imports =
     (readme_element\<lparr>attributes :=
        attributes readme_element @
          [maxLength_added, autoComplete_added, maxLength_added, autoComplete_added]\<rparr>,
      initial_stats\<lparr>componentsFound := 2, propsAdded := 4\<rparr>, True)"
  by code_simp

text \<open>
  C2. After a run that reports a change the attribute names should be in ascending order
  without repetition. The comparator of \<open>sortPropsAlphabetically\<close> reads the same absent
  field \<open>key\<close>, compares the empty name with the empty name and moves nothing: on the
  README's element the names come out as \<open>placeholder\<close>, \<open>style\<close>, \<open>maxLength\<close>,
  \<open>autoComplete\<close>, and after a second run two names stand there twice.
\<close>

theorem changed_merge_is_not_sorted:
  "snd (snd (addPropsToComponent readme_config initial_stats readme_element readme_imports)) \<and>
   map attribute_name
     (attributes (fst (addPropsToComponent readme_config initial_stats readme_element readme_imports))) =
     [''placeholder'', ''style'', ''maxLength'', ''autoComplete''] \<and>
   \<not> sorted (map attribute_name
     (attributes (fst (addPropsToComponent readme_config initial_stats readme_element readme_imports)))) \<and>
   snd (snd (apply_twice readme_config readme_element readme_imports)) \<and>
   \<not> distinct (map attribute_name
     (attributes (fst (apply_twice readme_config readme_element readme_imports))))"
  by code_simp

text \<open>
  C3. With \<open>updateExisting = false\<close> an attribute that is already there should be left
  alone, counted as skipped, and no change reported. For \<open><Field maxLength="10"/>\<close> and the
  directive \<open>maxLength = "20"\<close> the existing attribute keeps its value \<open>"10"\<close>, but
  \<open>hasProp\<close> does not find it: a second \<open>maxLength\<close> attribute is appended, the prop is
  counted as added and not as skipped, and the result is \<open>true\<close>.
\<close>

theorem existing_prop_is_added_again:
  "addPropsToComponent field_config initial_stats field_element [] =
     (\<lparr>tag = JSXIdentifier ''Field'',
       attributes =
         [JSXAttribute None (JSXIdentifier ''maxLength'') (Some (StringLiteral ''10'')),
          JSXAttribute None (JSXIdentifier ''maxLength'')
            (Some (JSXExpressionContainer (StringLiteral ''20'')))]\<rparr>,
      \<lparr>filesProcessed = 0, filesModified = 0, componentsFound = 1, propsAdded = 1,
       propsUpdated = 0, componentsSkipped = 0, errors = []\<rparr>,
      True)"
  by code_simp

section \<open>Classification\<close>

lemma string_includes_sublist: "string_includes s pkg \<longleftrightarrow> sublist pkg s"
  by (induction s) (simp_all add: sublist_Cons_right)

lemma array_includes_Nil: "\<not> array_includes [] c"
  by (simp add: array_includes_def)

lemma array_includes_string: "array_includes xs v \<Longrightarrow> \<exists>s. v = JSString s"
  by (auto simp: array_includes_def)

lemma analyzeImports_fst: "fst (analyzeImports cfg ds an) = tracked_imports cfg ds"
  unfolding tracked_imports_def
  by (induction ds arbitrary: an) (simp_all add: Let_def case_prod_unfold)

lemma set_collect_imports:
  "set (collect_imports ds) =
     (\<lambda>d. \<lparr>source = source_value d, imported_components = specifier_names (specifiers d)\<rparr>) `
       {d \<in> set ds. specifier_names (specifiers d) \<noteq> []}"
  by (induction ds) (auto simp: Let_def)

lemma isTrackedComponent_iff:
  "isTrackedComponent (tracked_imports acfg decls) c \<longleftrightarrow>
     (\<exists>d \<in> set decls. source_value d \<in> set (packagesToTrack acfg) \<and>
        array_includes (specifier_names (specifiers d)) c)"
  unfolding isTrackedComponent_def tracked_imports_def list_ex_iff set_collect_imports
  by (auto simp: array_includes_Nil)

lemma isComponentFromTargetPackages_iff:
  "isComponentFromTargetPackages cfg (collect_imports decls) c \<longleftrightarrow>
     (\<exists>d \<in> set decls. array_includes (specifier_names (specifiers d)) c \<and>
        (\<exists>pkg \<in> set (packages cfg). sublist pkg (source_value d)))"
  unfolding isComponentFromTargetPackages_def list_ex_iff set_collect_imports
    string_includes_sublist
  by (auto simp: array_includes_Nil)

text \<open>
  C4, as amended. The analyzer keeps an import declaration only when its module path is
  equal to a member of \<open>packagesToTrack\<close>, so there a provenance match needs exact
  equality. The props adder keeps every import declaration and tests
  \<open>importInfo.source.includes(pkg)\<close>: a match needs a configured package name that occurs
  in the module path as a contiguous substring, which equality gives but which does not
  need equality.
\<close>

theorem import_provenance_match:
  "(isTrackedComponent (fst (analyzeImports acfg decls an)) c \<longleftrightarrow>
      (\<exists>d \<in> set decls. source_value d \<in> set (packagesToTrack acfg) \<and>
         array_includes (specifier_names (specifiers d)) c)) \<and>
   (isComponentFromTargetPackages cfg (collect_imports decls) c \<longleftrightarrow>
      (\<exists>d \<in> set decls. array_includes (specifier_names (specifiers d)) c \<and>
         (\<exists>pkg \<in> set (packages cfg). sublist pkg (source_value d))))"
  by (simp only: analyzeImports_fst isTrackedComponent_iff isComponentFromTargetPackages_iff)

theorem import_provenance_match_witness:
  "\<not> isTrackedComponent
       (fst (analyzeImports (kit_config\<lparr>packagesToTrack := [''@react-navigation'']\<rparr>)
          [navigation_declaration] initial_analysis))
       (JSString ''NavigationContainer'') \<and>
   isTrackedComponent
       (fst (analyzeImports kit_config [kit_declaration ''Input''] initial_analysis))
       (JSString ''Input'') \<and>
   isComponentFromTargetPackages navigation_config (collect_imports [navigation_declaration])
       (JSString ''NavigationContainer'')"
proof -
  have sub: "sublist ''@react-navigation'' (''@react-navigation'' @ ''/native'')"
    by code_simp
  show ?thesis
    using sub
      import_provenance_match [of "kit_config\<lparr>packagesToTrack := [''@react-navigation'']\<rparr>"
        "[navigation_declaration]" initial_analysis "JSString ''NavigationContainer''"
        navigation_config]
      import_provenance_match [of kit_config "[kit_declaration ''Input'']" initial_analysis
        "JSString ''Input''" navigation_config]
    by (simp add: kit_config_def navigation_declaration_def navigation_config_def
        kit_declaration_def specifier_names_def array_includes_def)
qed

text \<open>
  The claim as the specification states it fails for the props adder: a component imported
  from \<open>@react-navigation/native\<close> is in scope under a configuration that lists no
  component names and only the package name \<open>@react-navigation\<close>.
\<close>

theorem substring_module_is_in_scope:
  "shouldProcessComponent navigation_config (JSString ''NavigationContainer'')
     (collect_imports [navigation_declaration]) \<and>
   components navigation_config = [] \<and>
   source_value navigation_declaration \<notin> set (packages navigation_config)"
  by code_simp

lemma HTML_ELEMENTS_lower_case: "n \<in> set HTML_ELEMENTS \<Longrightarrow> toLowerCase n = n"
proof -
  have "list_all (\<lambda>n. toLowerCase n = n) HTML_ELEMENTS"
    by code_simp
  then show "n \<in> set HTML_ELEMENTS \<Longrightarrow> toLowerCase n = n"
    by (simp add: list_all_iff)
qed

lemma shouldProcessComponent_HTML:
  "n \<in> set HTML_ELEMENTS \<Longrightarrow> \<not> shouldProcessComponent cfg (JSString n) imps"
  by (cases "n = []") (simp_all add: HTML_ELEMENTS_lower_case)

text \<open>
  C5, as amended. For every name of the built-in vocabulary the props adder ignores the
  element, whatever \<open>components\<close>, \<open>packages\<close> and the imports of the file are. The
  analyzer has no built-in vocabulary: it leaves an element with such a name alone when no
  import entry that it kept for the file binds the name.
\<close>

theorem builtin_tag_ignored:
  assumes "n \<in> set HTML_ELEMENTS"
  shows "\<not> shouldProcessComponent cfg (JSString n) imps \<and>
         addPropsToComponent cfg st \<lparr>tag = JSXIdentifier n, attributes = as\<rparr> imps =
           (\<lparr>tag = JSXIdentifier n, attributes = as\<rparr>, st, False) \<and>
         (\<not> isTrackedComponent fileImports (JSString n) \<longrightarrow>
            analyze_element acfg path fileImports \<lparr>tag = JSXIdentifier n, attributes = as\<rparr> acc = acc)"
  using shouldProcessComponent_HTML [OF assms, of cfg imps]
  by (simp add: addPropsToComponent_def analyze_element_def Let_def)

theorem builtin_tag_ignored_witness:
  "''input'' \<in> set HTML_ELEMENTS \<and>
   \<not> shouldProcessComponent (readme_config\<lparr>components := [''input'']\<rparr>) (JSString ''input'')
       [\<lparr>source = ''react-native'', imported_components = [''input'']\<rparr>] \<and>
   addPropsToComponent (readme_config\<lparr>components := [''input'']\<rparr>) initial_stats
       \<lparr>tag = JSXIdentifier ''input'', attributes = []\<rparr>
       [\<lparr>source = ''react-native'', imported_components = [''input'']\<rparr>] =
     (\<lparr>tag = JSXIdentifier ''input'', attributes = []\<rparr>, initial_stats, False) \<and>
   analyze_element kit_config ''A.tsx'' [\<lparr>source = ''kit'', imported_components = [''Field'']\<rparr>]
       \<lparr>tag = JSXIdentifier ''input'', attributes = []\<rparr> ([], initial_analysis) =
     ([], initial_analysis)"
proof -
  have member: "''input'' \<in> set HTML_ELEMENTS"
    by (simp add: HTML_ELEMENTS_def)
  have untracked:
    "\<not> isTrackedComponent [\<lparr>source = ''kit'', imported_components = [''Field'']\<rparr>]
         (JSString ''input'')"
    by (simp add: isTrackedComponent_def array_includes_def)
  show ?thesis
    using member untracked
      builtin_tag_ignored [OF member, of "readme_config\<lparr>components := [''input'']\<rparr>"
        "[\<lparr>source = ''react-native'', imported_components = [''input'']\<rparr>]"
        initial_stats "[]" "[\<lparr>source = ''kit'', imported_components = [''Field'']\<rparr>]"
        kit_config "''A.tsx''" "([], initial_analysis)"]
    by simp
qed

text \<open>
  The claim as stated fails for the analyzer: a file that imports a component named
  \<open>label\<close> from a tracked module and uses it has the usage counted, although \<open>label\<close> is in
  the vocabulary.
\<close>

theorem builtin_name_is_counted:
  "''label'' \<in> set HTML_ELEMENTS \<and>
   usages_of (analysis_components (analyzer_main kit_config [label_file])) (JSString ''label'') = 1"
  by code_simp

section \<open>Runs over the discovered files\<close>

lemma process_props_keeps:
  "process_props upd ps (a, st, h) = (a', st', h') \<Longrightarrow>
     filesProcessed st' = filesProcessed st \<and> errors st' = errors st \<and>
     filesModified st' = filesModified st"
proof (induction ps arbitrary: a st h)
  case Nil
  then show ?case by simp
next
  case (Cons p ps)
  then show ?case
    by (auto simp: Let_def split: if_splits prod.splits bool.splits)
qed

lemma addPropsToComponent_keeps:
  "addPropsToComponent cfg st e imps = (e', st', c) \<Longrightarrow>
     filesProcessed st' = filesProcessed st \<and> errors st' = errors st \<and>
     filesModified st' = filesModified st"
  by (auto simp: addPropsToComponent_def Let_def split: if_splits prod.splits
      dest!: process_props_keeps)

lemma process_elements_keeps:
  "process_elements cfg imps es (st, m) = (es', st', m') \<Longrightarrow>
     filesProcessed st' = filesProcessed st \<and> errors st' = errors st \<and>
     filesModified st' = filesModified st"
proof (induction es arbitrary: st m es' st' m')
  case Nil
  then show ?case by simp
next
  case (Cons e es)
  then show ?case
    by (auto split: prod.splits dest!: addPropsToComponent_keeps)
qed

lemma process_props_changes:
  "snd (snd (process_props upd ps (a, st, h))) = (h \<or> merge_changes upd ps a)"
proof (induction ps arbitrary: a st h upd)
  case Nil
  show ?case by (simp add: merge_changes_def)
next
  case (Cons p ps)
  show ?case
    unfolding merge_changes_def [of upd "p # ps"]
    by (auto simp: Let_def Cons.IH split: prod.splits bool.splits)
qed

lemma addPropsToComponent_changes:
  "snd (snd (addPropsToComponent cfg st e imps)) = element_changes cfg e imps"
proof -
  have "\<And>s. snd (snd (addPropsToComponent cfg s e imps)) =
      (shouldProcessComponent cfg (name_field (tag e)) imps \<and>
       merge_changes (updateExisting cfg) (props cfg) (attributes e))"
  proof -
    fix s
    have "snd (snd (process_props (updateExisting cfg) (props cfg)
            (attributes e, s\<lparr>componentsFound := componentsFound s + 1\<rparr>, False))) =
          merge_changes (updateExisting cfg) (props cfg) (attributes e)"
      by (simp add: process_props_changes)
    then show "snd (snd (addPropsToComponent cfg s e imps)) =
      (shouldProcessComponent cfg (name_field (tag e)) imps \<and>
       merge_changes (updateExisting cfg) (props cfg) (attributes e))"
      by (auto simp: addPropsToComponent_def Let_def split: prod.splits)
  qed
  then show ?thesis
    by (simp add: element_changes_def)
qed

lemma process_elements_modified:
  "snd (snd (process_elements cfg imps es (st, m))) = (m \<or> elements_modified cfg imps es)"
proof (induction es arbitrary: st m)
  case Nil
  show ?case by (simp add: elements_modified_def)
next
  case (Cons e es)
  have step: "\<And>s k. snd (snd (process_elements cfg imps (e # es) (s, k))) =
      (k \<or> element_changes cfg e imps \<or> elements_modified cfg imps es)"
  proof -
    fix s k
    obtain e' s' c where r: "addPropsToComponent cfg s e imps = (e', s', c)"
      by (cases "addPropsToComponent cfg s e imps") auto
    then have c: "c = element_changes cfg e imps"
      using addPropsToComponent_changes [of cfg s e imps] by simp
    show "snd (snd (process_elements cfg imps (e # es) (s, k))) =
      (k \<or> element_changes cfg e imps \<or> elements_modified cfg imps es)"
      using Cons.IH [of s' "k \<or> c"] by (auto simp: r c split: prod.splits)
  qed
  have "elements_modified cfg imps (e # es) =
      (element_changes cfg e imps \<or> elements_modified cfg imps es)"
    using step [of initial_stats False]
    by (simp only: elements_modified_def [of cfg imps "e # es"] simp_thms)
  with step [of st m] show ?case
    by blast
qed

lemma processFile_outcome:
  "errors (fst (processFile cfg st f)) =
     errors st @ recorded_errors (filePath f) (file_outcome cfg f) \<and>
   filesProcessed (fst (processFile cfg st f)) =
     filesProcessed st + (case file_outcome cfg f of Errored m \<Rightarrow> 0 | Modified \<Rightarrow> 1 | Unmodified \<Rightarrow> 1) \<and>
   filesModified (fst (processFile cfg st f)) =
     filesModified st + (case file_outcome cfg f of Errored m \<Rightarrow> 0 | Modified \<Rightarrow> 1 | Unmodified \<Rightarrow> 0)"
proof (cases "parsed f")
  case (Inl m)
  then show ?thesis
    by (simp add: processFile_def file_outcome_def error_processing_def)
next
  case (Inr tree)
  obtain es st' fm where run:
    "process_elements cfg (collect_imports (import_declarations tree)) (jsx_elements tree)
       (st, False) = (es, st', fm)"
    by (cases "process_elements cfg (collect_imports (import_declarations tree))
          (jsx_elements tree) (st, False)") auto
  have fm: "fm = file_modified cfg tree"
    using process_elements_modified
      [of cfg "collect_imports (import_declarations tree)" "jsx_elements tree" st False]
    by (simp add: run file_modified_def)
  have keeps: "filesProcessed st' = filesProcessed st" "errors st' = errors st"
    "filesModified st' = filesModified st"
    using process_elements_keeps [OF run] by simp_all
  show ?thesis
    by (cases "write_error f")
       (simp_all add: processFile_def file_outcome_def error_processing_def Inr run fm [symmetric]
          keeps)
qed

lemma process_files_outcomes:
  "errors (process_files cfg fs st) =
     errors st @ concat (map (\<lambda>f. recorded_errors (filePath f) (file_outcome cfg f)) fs) \<and>
   filesProcessed (process_files cfg fs st) =
     filesProcessed st +
       length (filter (\<lambda>f. file_outcome cfg f = Modified \<or> file_outcome cfg f = Unmodified) fs) \<and>
   filesModified (process_files cfg fs st) =
     filesModified st + length (filter (\<lambda>f. file_outcome cfg f = Modified) fs)"
proof (induction fs arbitrary: st)
  case Nil
  show ?case by simp
next
  case (Cons f fs)
  show ?case
    by (cases "file_outcome cfg f") (simp_all add: Cons.IH processFile_outcome)
qed

lemma main_outcomes:
  "errors (main cfg fs) =
     concat (map (\<lambda>f. recorded_errors (filePath f) (file_outcome cfg f)) fs) \<and>
   filesProcessed (main cfg fs) =
     length (filter (\<lambda>f. file_outcome cfg f = Modified \<or> file_outcome cfg f = Unmodified) fs) \<and>
   filesModified (main cfg fs) = length (filter (\<lambda>f. file_outcome cfg f = Modified) fs)"
  by (cases "fs = []") (simp_all add: main_def process_files_outcomes, simp_all add: initial_stats_def)

lemma length_recorded_errors:
  "length (concat (map (\<lambda>f. recorded_errors (filePath f) (file_outcome cfg f)) fs)) =
     length (filter (\<lambda>f. \<not> (file_outcome cfg f = Modified \<or> file_outcome cfg f = Unmodified)) fs)"
proof (induction fs)
  case Nil
  show ?case by simp
next
  case (Cons f fs)
  then show ?case
    by (cases "file_outcome cfg f") simp_all
qed

lemma recorded_error_member:
  "f \<in> set fs \<Longrightarrow> file_outcome cfg f = Errored m \<Longrightarrow>
     ''Error processing '' @ filePath f @ '': '' @ m \<in>
       set (concat (map (\<lambda>f. recorded_errors (filePath f) (file_outcome cfg f)) fs))"
  by (induction fs) auto

lemma track_components_keeps:
  "analysis_files (track_components src cs an) = analysis_files an \<and>
   analysis_components (track_components src cs an) = analysis_components an \<and>
   totalFiles (analysis_summary (track_components src cs an)) = totalFiles (analysis_summary an)"
  by (simp add: track_components_def Let_def)

lemma analyzeImports_keeps:
  "analysis_files (snd (analyzeImports cfg ds an)) = analysis_files an \<and>
   analysis_components (snd (analyzeImports cfg ds an)) = analysis_components an \<and>
   totalFiles (analysis_summary (snd (analyzeImports cfg ds an))) = totalFiles (analysis_summary an)"
  by (induction ds arbitrary: an) (simp_all add: Let_def case_prod_unfold track_components_keeps)

lemma analyze_element_keeps:
  "analysis_files (snd (analyze_element cfg path fi el acc)) = analysis_files (snd acc) \<and>
   analysis_summary (snd (analyze_element cfg path fi el acc)) = analysis_summary (snd acc)"
  by (simp add: analyze_element_def Let_def)

lemma fold_analyze_element_keeps:
  "analysis_files (snd (fold (analyze_element cfg path fi) els acc)) = analysis_files (snd acc) \<and>
   analysis_summary (snd (fold (analyze_element cfg path fi) els acc)) = analysis_summary (snd acc)"
  by (induction els arbitrary: acc) (simp_all add: analyze_element_keeps)

lemma analyzer_processFile_totalFiles:
  "totalFiles (analysis_summary (analyzer_processFile cfg an f)) =
     totalFiles (analysis_summary an) + (if isl (parsed f) then 0 else 1)"
  by (cases "parsed f")
     (simp_all add: analyzer_processFile_def analyzeJSXUsage_def case_prod_unfold
        fold_analyze_element_keeps analyzeImports_keeps)

lemma analyzer_processFile_files:
  "fst ` set (analysis_files (analyzer_processFile cfg an f)) =
     (if isl (parsed f) then {} else {filePath f}) \<union> fst ` set (analysis_files an)"
  by (cases "parsed f")
     (simp_all add: analyzer_processFile_def analyzeJSXUsage_def case_prod_unfold
        fold_analyze_element_keeps analyzeImports_keeps AList.dom_update)

lemma analyze_files_totalFiles:
  "totalFiles (analysis_summary (analyze_files cfg fs an)) =
     totalFiles (analysis_summary an) + length (filter (\<lambda>f. \<not> isl (parsed f)) fs)"
  by (induction fs arbitrary: an) (simp_all add: analyzer_processFile_totalFiles)

lemma analyze_files_files:
  "fst ` set (analysis_files (analyze_files cfg fs an)) =
     filePath ` {f \<in> set fs. \<not> isl (parsed f)} \<union> fst ` set (analysis_files an)"
  by (induction fs arbitrary: an) (auto simp: analyzer_processFile_files)

lemma analyzer_main_totalFiles:
  "totalFiles (analysis_summary (analyzer_main cfg fs)) =
     length (filter (\<lambda>f. \<not> isl (parsed f)) fs)"
  by (simp add: analyzer_main_def calculate_priorities_def calculate_summary_def
      analyze_files_totalFiles initial_analysis_def)

lemma analyzer_main_files:
  "fst ` set (analysis_files (analyzer_main cfg fs)) = filePath ` {f \<in> set fs. \<not> isl (parsed f)}"
  by (simp add: analyzer_main_def calculate_priorities_def calculate_summary_def
      analyze_files_files initial_analysis_def)

lemma length_filter_mono:
  "length (filter (\<lambda>x. P x) xs) \<le> length (filter (\<lambda>x. P x \<or> Q x) xs)"
  by (induction xs) auto

lemma recorded_error_origin:
  "e \<in> set (concat (map (\<lambda>f. recorded_errors (filePath f) (file_outcome cfg f)) fs)) \<Longrightarrow>
     \<exists>f \<in> set fs. \<exists>m. file_outcome cfg f = Errored m \<and>
        e = ''Error processing '' @ filePath f @ '': '' @ m"
proof (induction fs)
  case Nil
  then show ?case by simp
next
  case (Cons g gs)
  then show ?case
    by (cases "file_outcome cfg g") auto
qed

lemma error_string_contains:
  "sublist path (''Error processing '' @ path @ '': '' @ m) \<and>
   sublist m (''Error processing '' @ path @ '': '' @ m)"
proof
  show "sublist path (''Error processing '' @ path @ '': '' @ m)"
    by (rule sublist_appendI)
  have "sublist m ((''Error processing '' @ path @ '': '') @ m @ [])"
    by (rule sublist_appendI)
  then show "sublist m (''Error processing '' @ path @ '': '' @ m)"
    by simp
qed

text \<open>
  C6, as amended. In the props adder every error caught for a file, whether thrown by
  reading or parsing the file or by writing the modified file back, is kept in
  \<open>stats.errors\<close> as the one string \<open>Error processing <path>: <message>\<close>, which contains
  the file's path and the error's message. Every discovered file is accounted for exactly
  once: it is counted in \<open>filesProcessed\<close> (and in \<open>filesModified\<close> too when it was
  modified and written, not when it was left unmodified), or it has its error string. In
  the analyzer the error of a file is printed and kept nowhere: the file leaves the
  analysis as it was, and \<open>totalFiles\<close> and the file table cover the files that were
  analysed. In both scripts every file of the list is handled, whichever files before it
  failed.
\<close>

theorem file_errors_accounting:
  "errors (main cfg files) =
     concat (map (\<lambda>f. recorded_errors (filePath f) (file_outcome cfg f)) files) \<and>
   filesProcessed (main cfg files) =
     length (filter (\<lambda>f. file_outcome cfg f = Modified \<or> file_outcome cfg f = Unmodified) files) \<and>
   filesModified (main cfg files) = length (filter (\<lambda>f. file_outcome cfg f = Modified) files) \<and>
   filesModified (main cfg files) \<le> filesProcessed (main cfg files) \<and>
   filesProcessed (main cfg files) + length (errors (main cfg files)) = length files \<and>
   (\<forall>f \<in> set files. \<forall>m. parsed f = Inl m \<longrightarrow>
      ''Error processing '' @ filePath f @ '': '' @ m \<in> set (errors (main cfg files))) \<and>
   (\<forall>f \<in> set files. \<forall>tree m.
      parsed f = Inr tree \<and> file_modified cfg tree \<and> write_error f = Some m \<longrightarrow>
      ''Error processing '' @ filePath f @ '': '' @ m \<in> set (errors (main cfg files))) \<and>
   (\<forall>e \<in> set (errors (main cfg files)). \<exists>f \<in> set files. \<exists>m.
      file_outcome cfg f = Errored m \<and> e = ''Error processing '' @ filePath f @ '': '' @ m \<and>
      sublist (filePath f) e \<and> sublist m e) \<and>
   (\<forall>f an m. parsed f = Inl m \<longrightarrow> analyzer_processFile acfg an f = an) \<and>
   totalFiles (analysis_summary (analyzer_main acfg files)) =
     length (filter (\<lambda>f. \<not> isl (parsed f)) files) \<and>
   fst ` set (analysis_files (analyzer_main acfg files)) =
     filePath ` {f \<in> set files. \<not> isl (parsed f)}"
proof -
  note run = main_outcomes [of cfg files]
  have modified: "filesModified (main cfg files) \<le> filesProcessed (main cfg files)"
    using run length_filter_mono [of "\<lambda>f. file_outcome cfg f = Modified" files
        "\<lambda>f. file_outcome cfg f = Unmodified"]
    by simp
  have total: "filesProcessed (main cfg files) + length (errors (main cfg files)) = length files"
    using run length_recorded_errors [of cfg files]
      sum_length_filter_compl
        [of "\<lambda>f. file_outcome cfg f = Modified \<or> file_outcome cfg f = Unmodified" files]
    by simp
  have parse: "\<forall>f \<in> set files. \<forall>m. parsed f = Inl m \<longrightarrow>
      ''Error processing '' @ filePath f @ '': '' @ m \<in> set (errors (main cfg files))"
  proof (intro ballI allI impI)
    fix f m
    assume "f \<in> set files" and "parsed f = Inl m"
    then show "''Error processing '' @ filePath f @ '': '' @ m \<in> set (errors (main cfg files))"
      using run recorded_error_member [of f files cfg m] by (simp add: file_outcome_def)
  qed
  have written: "\<forall>f \<in> set files. \<forall>tree m.
      parsed f = Inr tree \<and> file_modified cfg tree \<and> write_error f = Some m \<longrightarrow>
      ''Error processing '' @ filePath f @ '': '' @ m \<in> set (errors (main cfg files))"
  proof (intro ballI allI impI)
    fix f tree m
    assume "f \<in> set files"
      and "parsed f = Inr tree \<and> file_modified cfg tree \<and> write_error f = Some m"
    then show "''Error processing '' @ filePath f @ '': '' @ m \<in> set (errors (main cfg files))"
      using run recorded_error_member [of f files cfg m] by (simp add: file_outcome_def)
  qed
  have origin: "\<forall>e \<in> set (errors (main cfg files)). \<exists>f \<in> set files. \<exists>m.
      file_outcome cfg f = Errored m \<and> e = ''Error processing '' @ filePath f @ '': '' @ m \<and>
      sublist (filePath f) e \<and> sublist m e"
  proof
    fix e
    assume "e \<in> set (errors (main cfg files))"
    then obtain f m where "f \<in> set files" and "file_outcome cfg f = Errored m"
      and "e = ''Error processing '' @ filePath f @ '': '' @ m"
      using run recorded_error_origin [of e cfg files] by auto
    then show "\<exists>f \<in> set files. \<exists>m.
      file_outcome cfg f = Errored m \<and> e = ''Error processing '' @ filePath f @ '': '' @ m \<and>
      sublist (filePath f) e \<and> sublist m e"
      using error_string_contains [of "filePath f" m] by blast
  qed
  have silent: "\<forall>f an m. parsed f = Inl m \<longrightarrow> analyzer_processFile acfg an f = an"
    by (simp add: analyzer_processFile_def)
  from run modified total parse written origin silent show ?thesis
    by (simp only: analyzer_main_totalFiles analyzer_main_files simp_thms)
qed

theorem file_errors_accounting_witness:
  "errors (main field_config [file_A, broken_file, unwritable_file, label_file]) =
     [''Error processing broken.tsx: Unexpected token (3:7)'',
      ''Error processing B.tsx: EACCES: permission denied''] \<and>
   filesProcessed (main field_config [file_A, broken_file, unwritable_file, label_file]) = 2 \<and>
   filesModified (main field_config [file_A, broken_file, unwritable_file, label_file]) = 1 \<and>
   analyzer_processFile kit_config initial_analysis broken_file = initial_analysis \<and>
   totalFiles (analysis_summary
     (analyzer_main kit_config [file_A, broken_file, unwritable_file, label_file])) = 3 \<and>
   fst ` set (analysis_files
     (analyzer_main kit_config [file_A, broken_file, unwritable_file, label_file])) =
     {''A.tsx'', ''B.tsx'', ''label.tsx''}"
proof -
  note run = file_errors_accounting
    [of field_config "[file_A, broken_file, unwritable_file, label_file]" kit_config]
  have outcomes: "file_outcome field_config file_A = Modified"
    "file_outcome field_config broken_file = Errored ''Unexpected token (3:7)''"
    "file_outcome field_config unwritable_file = Errored ''EACCES: permission denied''"
    "file_outcome field_config label_file = Unmodified"
    by code_simp+
  have paths: "filePath file_A = ''A.tsx''" "filePath broken_file = ''broken.tsx''"
    "filePath unwritable_file = ''B.tsx''" "filePath label_file = ''label.tsx''"
    by (simp_all add: file_A_def file_B_def broken_file_def unwritable_file_def label_file_def)
  have broken: "parsed broken_file = Inl ''Unexpected token (3:7)''"
    by (simp add: broken_file_def)
  have parses: "\<not> isl (parsed file_A)" "isl (parsed broken_file)"
    "\<not> isl (parsed unwritable_file)" "\<not> isl (parsed label_file)"
    by (simp_all add: file_A_def file_B_def broken_file_def unwritable_file_def label_file_def)
  from run have "errors (main field_config [file_A, broken_file, unwritable_file, label_file]) =
      concat (map (\<lambda>f. recorded_errors (filePath f) (file_outcome field_config f))
        [file_A, broken_file, unwritable_file, label_file])"
    by blast
  then have "errors (main field_config [file_A, broken_file, unwritable_file, label_file]) =
     [''Error processing broken.tsx: Unexpected token (3:7)'',
      ''Error processing B.tsx: EACCES: permission denied'']"
    by (simp add: outcomes paths)
  moreover from run
  have "filesProcessed (main field_config [file_A, broken_file, unwritable_file, label_file]) =
      length (filter (\<lambda>f. file_outcome field_config f = Modified \<or>
          file_outcome field_config f = Unmodified)
        [file_A, broken_file, unwritable_file, label_file])"
    by blast
  then have "filesProcessed (main field_config [file_A, broken_file, unwritable_file, label_file]) = 2"
    by (simp add: outcomes)
  moreover from run
  have "filesModified (main field_config [file_A, broken_file, unwritable_file, label_file]) =
      length (filter (\<lambda>f. file_outcome field_config f = Modified)
        [file_A, broken_file, unwritable_file, label_file])"
    by blast
  then have "filesModified (main field_config [file_A, broken_file, unwritable_file, label_file]) = 1"
    by (simp add: outcomes)
  moreover from run broken
  have "analyzer_processFile kit_config initial_analysis broken_file = initial_analysis"
    by blast
  moreover from run
  have "totalFiles (analysis_summary
      (analyzer_main kit_config [file_A, broken_file, unwritable_file, label_file])) =
      length (filter (\<lambda>f. \<not> isl (parsed f)) [file_A, broken_file, unwritable_file, label_file])"
    by blast
  then have "totalFiles (analysis_summary
      (analyzer_main kit_config [file_A, broken_file, unwritable_file, label_file])) = 3"
    by (simp add: parses)
  moreover have "fst ` set (analysis_files
      (analyzer_main kit_config [file_A, broken_file, unwritable_file, label_file])) =
     {''A.tsx'', ''B.tsx'', ''label.tsx''}"
  proof -
    have "{f \<in> set [file_A, broken_file, unwritable_file, label_file]. \<not> isl (parsed f)} =
        {file_A, unwritable_file, label_file}"
      using parses by auto
    moreover from run
    have "fst ` set (analysis_files
        (analyzer_main kit_config [file_A, broken_file, unwritable_file, label_file])) =
        filePath ` {f \<in> set [file_A, broken_file, unwritable_file, label_file]. \<not> isl (parsed f)}"
      by blast
    ultimately show ?thesis
      by (simp add: paths)
  qed
  ultimately show ?thesis
    by (simp only: simp_thms)
qed

text \<open>
  The claim as stated fails for the analyzer: the analysis of three files of which the
  second does not parse is the analysis of the other two, so nothing in the report
  accounts for the second file.
\<close>

theorem analyzer_drops_errored_file:
  "analyzer_main kit_config [file_A, broken_file, file_B] = analyzer_main kit_config [file_A, file_B] \<and>
   totalFiles (analysis_summary (analyzer_main kit_config [file_A, broken_file, file_B])) = 2 \<and>
   map fst (analysis_files (analyzer_main kit_config [file_A, broken_file, file_B])) =
     [''A.tsx'', ''B.tsx'']"
  by code_simp

section \<open>Usage aggregation\<close>

lemma map_of_increment:
  "map_of (increment k m) k' =
     (if k' = k then Some ((case map_of m k of None \<Rightarrow> 0 | Some n \<Rightarrow> n) + 1) else map_of m k')"
  by (simp add: increment_def AList.update_conv' split: option.splits)

lemma usages_of_record_usage:
  "usages_of (record_usage path fi c comps) c' =
     (if c' = c then usages_of comps c + 1 else usages_of comps c')"
  by (simp add: usages_of_def record_usage_def Let_def AList.update_conv' new_component_def
      split: option.splits)

lemma file_count_record_usage:
  "file_count (record_usage path fi c comps) c' p =
     (if c' = c \<and> p = path then file_count comps c path + 1 else file_count comps c' p)"
  by (simp add: file_count_def record_usage_def Let_def AList.update_conv' new_component_def
      map_of_increment split: option.splits)

lemma analyze_element_components:
  "analysis_components (snd (analyze_element cfg path fi el acc)) =
     (if in_scope cfg fi (name_field (tag el))
      then record_usage path fi (name_field (tag el)) (analysis_components (snd acc))
      else analysis_components (snd acc))"
  by (auto simp: analyze_element_def in_scope_def Let_def)

lemma fold_analyze_element_usages:
  "usages_of (analysis_components (snd (fold (analyze_element cfg path fi) els acc))) c =
     usages_of (analysis_components (snd acc)) c +
     length (filter (\<lambda>el. name_field (tag el) = c \<and> in_scope cfg fi c) els)"
  by (induction els arbitrary: acc)
     (auto simp: analyze_element_components usages_of_record_usage)

lemma fold_analyze_element_file_count:
  "file_count (analysis_components (snd (fold (analyze_element cfg path fi) els acc))) c p =
     file_count (analysis_components (snd acc)) c p +
     (if p = path
      then length (filter (\<lambda>el. name_field (tag el) = c \<and> in_scope cfg fi c) els) else 0)"
  by (induction els arbitrary: acc)
     (auto simp: analyze_element_components file_count_record_usage)

lemma analyzer_processFile_components:
  "analysis_components (analyzer_processFile cfg an f) =
     (case parsed f of
        Inl m \<Rightarrow> analysis_components an
      | Inr tree \<Rightarrow>
          analysis_components
            (snd (fold (analyze_element cfg (filePath f) (tracked_imports cfg (import_declarations tree)))
               (jsx_elements tree) ([], snd (analyzeImports cfg (import_declarations tree) an)))))"
  by (cases "parsed f")
     (simp_all add: analyzer_processFile_def analyzeJSXUsage_def case_prod_unfold
        analyzeImports_fst)

lemma analyzer_processFile_usages:
  "usages_of (analysis_components (analyzer_processFile cfg an f)) c =
     usages_of (analysis_components an) c + sightings cfg f c"
  by (cases "parsed f")
     (simp_all add: analyzer_processFile_components fold_analyze_element_usages
        analyzeImports_keeps sightings_def)

lemma analyzer_processFile_file_count:
  "file_count (analysis_components (analyzer_processFile cfg an f)) c p =
     file_count (analysis_components an) c p + (if filePath f = p then sightings cfg f c else 0)"
  by (cases "parsed f")
     (auto simp: analyzer_processFile_components fold_analyze_element_file_count
        analyzeImports_keeps sightings_def)

lemma analyze_files_usages:
  "usages_of (analysis_components (analyze_files cfg fs an)) c =
     usages_of (analysis_components an) c + sum_list (map (\<lambda>f. sightings cfg f c) fs)"
  by (induction fs arbitrary: an) (simp_all add: analyzer_processFile_usages)

lemma analyze_files_file_count:
  "file_count (analysis_components (analyze_files cfg fs an)) c p =
     file_count (analysis_components an) c p +
     sum_list (map (\<lambda>f. sightings cfg f c) (filter (\<lambda>f. filePath f = p) fs))"
  by (induction fs arbitrary: an) (simp_all add: analyzer_processFile_file_count)

lemma map_of_map_snd:
  "map_of (map (\<lambda>kc. (fst kc, g (snd kc))) xs) k = map_option g (map_of xs k)"
  by (induction xs) auto

lemma calculate_priorities_lookup:
  "map_of (analysis_components (calculate_priorities cfg an)) c =
     map_option (\<lambda>d. d\<lparr>migrationPriority := getMigrationPriority cfg (component_totalUsages d)\<rparr>)
       (map_of (analysis_components an) c)"
  using map_of_map_snd
    [of "\<lambda>d. d\<lparr>migrationPriority := getMigrationPriority cfg (component_totalUsages d)\<rparr>"
      "analysis_components an" c]
  by (simp add: calculate_priorities_def)

lemma calculate_priorities_usages:
  "usages_of (analysis_components (calculate_priorities cfg an)) c =
     usages_of (analysis_components an) c"
  by (simp add: usages_of_def calculate_priorities_lookup split: option.splits)

lemma calculate_priorities_file_count:
  "file_count (analysis_components (calculate_priorities cfg an)) c p =
     file_count (analysis_components an) c p"
  by (simp add: file_count_def calculate_priorities_lookup split: option.splits)

lemma analyzer_main_usages:
  "usages_of (analysis_components (analyzer_main cfg fs)) c =
     sum_list (map (\<lambda>f. sightings cfg f c) fs)"
  by (simp add: analyzer_main_def calculate_priorities_usages calculate_summary_def
      analyze_files_usages)
     (simp add: initial_analysis_def usages_of_def)

lemma analyzer_main_file_count:
  "file_count (analysis_components (analyzer_main cfg fs)) c p =
     sum_list (map (\<lambda>f. sightings cfg f c) (filter (\<lambda>f. filePath f = p) fs))"
  by (simp add: analyzer_main_def calculate_priorities_file_count calculate_summary_def
      analyze_files_file_count)
     (simp add: initial_analysis_def file_count_def)

text \<open>
  C7. Each in-scope sighting adds exactly one to the \<open>totalUsages\<close> of the component's
  record and exactly one to the record's counter for the file of the sighting, and leaves
  every other total and counter as it was; an element that is not in scope changes no
  record. At the end of a run the total of a component is therefore the number of its
  sightings in all files, and its counter for a file the number of its sightings there:
  with two sightings of \<open>Field\<close> in \<open>A.tsx\<close> and one in \<open>B.tsx\<close> the record ends with
  \<open>totalUsages = 3\<close> and the per-file map \<open>{A.tsx: 2, B.tsx: 1}\<close>.
\<close>

theorem sighting_counts_once:
  "(in_scope cfg fi (name_field (tag el)) \<longrightarrow>
      usages_of (analysis_components (snd (analyze_element cfg path fi el (u, an)))) c =
        usages_of (analysis_components an) c + (if c = name_field (tag el) then 1 else 0) \<and>
      file_count (analysis_components (snd (analyze_element cfg path fi el (u, an)))) c p =
        file_count (analysis_components an) c p +
          (if c = name_field (tag el) \<and> p = path then 1 else 0)) \<and>
   (\<not> in_scope cfg fi (name_field (tag el)) \<longrightarrow>
      analysis_components (snd (analyze_element cfg path fi el (u, an))) = analysis_components an) \<and>
   usages_of (analysis_components (analyzer_main cfg files)) c =
     sum_list (map (\<lambda>f. sightings cfg f c) files) \<and>
   file_count (analysis_components (analyzer_main cfg files)) c p =
     sum_list (map (\<lambda>f. sightings cfg f c) (filter (\<lambda>f. filePath f = p) files))"
  by (simp add: analyze_element_components usages_of_record_usage file_count_record_usage
      analyzer_main_usages analyzer_main_file_count)

theorem sighting_counts_once_witness:
  "in_scope kit_config [\<lparr>source = ''kit'', imported_components = [''Field'']\<rparr>]
     (name_field (tag (plain_element (JSXIdentifier ''Field'')))) \<and>
   usages_of (analysis_components (snd (analyze_element kit_config ''A.tsx''
       [\<lparr>source = ''kit'', imported_components = [''Field'']\<rparr>]
       (plain_element (JSXIdentifier ''Field'')) ([], initial_analysis)))) (JSString ''Field'') = 1 \<and>
   usages_of (analysis_components (analyzer_main kit_config [file_A, file_B]))
     (JSString ''Field'') = 3 \<and>
   file_count (analysis_components (analyzer_main kit_config [file_A, file_B]))
     (JSString ''Field'') ''A.tsx'' = 2 \<and>
   file_count (analysis_components (analyzer_main kit_config [file_A, file_B]))
     (JSString ''Field'') ''B.tsx'' = 1"
proof -
  have scope: "in_scope kit_config [\<lparr>source = ''kit'', imported_components = [''Field'']\<rparr>]
     (name_field (tag (plain_element (JSXIdentifier ''Field''))))"
    by code_simp
  have seen: "sightings kit_config file_A (JSString ''Field'') = 2"
    "sightings kit_config file_B (JSString ''Field'') = 1"
    by code_simp+
  have paths: "filePath file_A = ''A.tsx''" "filePath file_B = ''B.tsx''"
    by (simp_all add: file_A_def file_B_def)
  have start: "usages_of (analysis_components initial_analysis) (JSString ''Field'') = 0"
    by (simp add: initial_analysis_def usages_of_def)
  have name: "name_field (tag (plain_element (JSXIdentifier ''Field''))) = JSString ''Field''"
    by (simp add: plain_element_def)
  show ?thesis
    using scope
      sighting_counts_once [of kit_config "[\<lparr>source = ''kit'', imported_components = [''Field'']\<rparr>]"
        "plain_element (JSXIdentifier ''Field'')" "''A.tsx''" "[]" initial_analysis
        "JSString ''Field''" "''A.tsx''" "[file_A, file_B]"]
      sighting_counts_once [of kit_config "[\<lparr>source = ''kit'', imported_components = [''Field'']\<rparr>]"
        "plain_element (JSXIdentifier ''Field'')" "''A.tsx''" "[]" initial_analysis
        "JSString ''Field''" "''B.tsx''" "[file_A, file_B]"]
    by (simp add: seen paths start name)
qed

section \<open>Migration priority\<close>

text \<open>
  C8. For fixed thresholds the priority never goes down when the usage count goes up,
  where the priority is high from the high threshold on, else medium from the medium
  threshold on, else low.
\<close>

theorem priority_monotone:
  "(a < b \<longrightarrow>
      priority_rank (getMigrationPriority cfg a) \<le> priority_rank (getMigrationPriority cfg b)) \<and>
   getMigrationPriority cfg a =
     (if high (priorityThresholds cfg) \<le> int a then High
      else if medium (priorityThresholds cfg) \<le> int a then Medium else Low)"
  by (simp add: getMigrationPriority_def)

theorem priority_monotone_witness:
  "(7::nat) < 12 \<and>
   priority_rank (getMigrationPriority kit_config 7) \<le>
     priority_rank (getMigrationPriority kit_config 12) \<and>
   getMigrationPriority kit_config 7 = Medium \<and> getMigrationPriority kit_config 12 = High"
proof -
  have less: "(7::nat) < 12"
    by simp
  show ?thesis
    using less priority_monotone [of 7 12 kit_config] priority_monotone [of 12 7 kit_config]
    by (simp add: kit_config_def)
qed

section \<open>Tags that are not identifiers\<close>

lemma name_field_not_string: "(\<forall>s. t \<noteq> JSXIdentifier s) \<Longrightarrow> name_field t \<noteq> JSString s"
  by (cases t) auto

lemma shouldProcessComponent_string:
  "shouldProcessComponent cfg v imps \<Longrightarrow> \<exists>s. v = JSString s"
  by (cases v) auto

lemma isTrackedComponent_string: "isTrackedComponent fileImports v \<Longrightarrow> \<exists>s. v = JSString s"
  by (auto simp: isTrackedComponent_def list_ex_iff dest: array_includes_string)

text \<open>
  C9. An element whose tag is not a plain identifier is never changed by the props adder
  and never counted by the analyzer: the name that both scripts read from the tag is then
  not a string, \<open>shouldProcessComponent\<close> is false for it, and neither the filters nor the
  import entries of the analyzer can contain it.
\<close>

theorem non_identifier_tag_untouched:
  assumes "\<forall>s. tag el \<noteq> JSXIdentifier s"
  shows "\<not> shouldProcessComponent cfg (name_field (tag el)) imps \<and>
         addPropsToComponent cfg st el imps = (el, st, False) \<and>
         analyze_element acfg path fileImports el acc = acc"
proof -
  have not_string: "\<And>s. name_field (tag el) \<noteq> JSString s"
    using assms by (simp add: name_field_not_string)
  have "\<not> shouldProcessComponent cfg (name_field (tag el)) imps"
    using not_string shouldProcessComponent_string by blast
  moreover have "\<not> isTrackedComponent fileImports (name_field (tag el))"
    using not_string isTrackedComponent_string by blast
  ultimately show ?thesis
    by (simp add: addPropsToComponent_def analyze_element_def Let_def)
qed

theorem non_identifier_tag_untouched_witness:
  "(\<forall>s. tag (plain_element (JSXMemberExpression (JSXIdentifier ''Stack'') ''Screen'')) \<noteq>
        JSXIdentifier s) \<and>
   addPropsToComponent readme_config initial_stats
       (plain_element (JSXMemberExpression (JSXIdentifier ''Stack'') ''Screen'')) readme_imports =
     (plain_element (JSXMemberExpression (JSXIdentifier ''Stack'') ''Screen''), initial_stats, False) \<and>
   analyze_element kit_config ''B.tsx'' [\<lparr>source = ''kit'', imported_components = [''Field'']\<rparr>]
       (plain_element (JSXMemberExpression (JSXIdentifier ''Stack'') ''Screen''))
       ([], initial_analysis) =
     ([], initial_analysis)"
proof -
  have member: "\<forall>s. tag (plain_element (JSXMemberExpression (JSXIdentifier ''Stack'') ''Screen'')) \<noteq>
        JSXIdentifier s"
    by (simp add: plain_element_def)
  show ?thesis
    using member
      non_identifier_tag_untouched [OF member, of readme_config readme_imports initial_stats
        kit_config "''B.tsx''" "[\<lparr>source = ''kit'', imported_components = [''Field'']\<rparr>]"
        "([], initial_analysis)"]
    by simp
qed

section \<open>The summary of an analysis run\<close>

text \<open>
  C10. At the end of an analysis run the summary agrees with the component records:
  \<open>totalComponents\<close> is the number of records and \<open>totalUsages\<close> the sum of their
  \<open>totalUsages\<close>. This holds as well for the run that finds no file and returns at once.
\<close>

theorem summary_consistent:
  "totalComponents (analysis_summary (analyzer_main cfg files)) =
     length (analysis_components (analyzer_main cfg files)) \<and>
   totalUsages (analysis_summary (analyzer_main cfg files)) =
     sum_list (map (\<lambda>kc. component_totalUsages (snd kc))
       (analysis_components (analyzer_main cfg files)))"
  by (simp add: analyzer_main_def initial_analysis_def calculate_summary_def
      calculate_priorities_def comp_def)


end
